theory Spec2Isabelle
  imports Main
begin

section \<open>Python values, dictionaries and exceptions\<close>

text \<open>
  The validation config is a Python dictionary read from a config file: its values are
  None, booleans, integers, strings, lists and nested dictionaries. A dictionary is an
  association list keyed by strings, each key bound once; \<open>map_of\<close> looks a key up.
\<close>

datatype pyval =
    PNone
  | PBool bool
  | PInt int
  | PStr string
  | PList "pyval list"
  | PDict "(string \<times> pyval) list"

type_synonym pydict = "(string \<times> pyval) list"

text \<open>
  The exceptions the builder can raise. \<open>ValueError\<close> and \<open>Exception\<close> carry the message
  template and the value formatted into it.
\<close>

datatype error =
    KeyError string
  | TypeError
  | AttributeError
  | ValueError string pyval
  | Exception string pyval

text \<open>Truth value of a Python object, as \<open>or\<close> tests it.\<close>

fun truthy :: "pyval \<Rightarrow> bool" where
  "truthy PNone = False"
| "truthy (PBool b) = b"
| "truthy (PInt n) = (n \<noteq> 0)"
| "truthy (PStr s) = (s \<noteq> [])"
| "truthy (PList xs) = (xs \<noteq> [])"
| "truthy (PDict d) = (d \<noteq> [])"

text \<open>\<open>d[k]\<close> on a dictionary: KeyError when the key is missing.\<close>

definition dict_getitem :: "pydict \<Rightarrow> string \<Rightarrow> error + pyval" where
  "dict_getitem d k = (case map_of d k of None \<Rightarrow> Inl (KeyError k) | Some v \<Rightarrow> Inr v)"

text \<open>\<open>d.get(k, default)\<close> and \<open>d.get(k)\<close>, whose default is None.\<close>

definition dict_get_default :: "pydict \<Rightarrow> string \<Rightarrow> pyval \<Rightarrow> pyval" where
  "dict_get_default d k dflt = (case map_of d k of None \<Rightarrow> dflt | Some v \<Rightarrow> v)"

definition dict_get :: "pydict \<Rightarrow> string \<Rightarrow> pyval" where
  "dict_get d k = dict_get_default d k PNone"

text \<open>
  \<open>v[k]\<close> with a string key on an arbitrary object: only a dictionary accepts it; a string
  or a list wants integer indices and the other values are not subscriptable.
\<close>

definition py_getitem :: "pyval \<Rightarrow> string \<Rightarrow> error + pyval" where
  "py_getitem v k = (case v of PDict d \<Rightarrow> dict_getitem d k | _ \<Rightarrow> Inl TypeError)"

text \<open>\<open>v.get(k)\<close> on an arbitrary object: only a dictionary has the method.\<close>

definition py_get :: "pyval \<Rightarrow> string \<Rightarrow> error + pyval" where
  "py_get v k = (case v of PDict d \<Rightarrow> Inr (dict_get d k) | _ \<Rightarrow> Inl AttributeError)"

text \<open>
  The elements a \<open>for\<close> loop visits: the items of a list, the keys of a dictionary, the
  characters of a string; the other values are not iterable.
\<close>

fun py_iter :: "pyval \<Rightarrow> error + pyval list" where
  "py_iter (PList xs) = Inr xs"
| "py_iter (PDict d) = Inr (map PStr (remdups (map fst d)))"
| "py_iter (PStr s) = Inr (map (\<lambda>c. PStr [c]) s)"
| "py_iter _ = Inl TypeError"

text \<open>
  A \<open>for\<close> loop whose body may raise: the state is threaded through the elements in
  order, and the first exception ends the loop. The result holds the exception, if any,
  and the state the loop left behind.
\<close>

fun for_each :: "('a \<Rightarrow> 's \<Rightarrow> error + 's) \<Rightarrow> 'a list \<Rightarrow> 's \<Rightarrow> error option \<times> 's" where
  "for_each body [] s = (None, s)"
| "for_each body (x # xs) s =
     (case body x s of Inl e \<Rightarrow> (Some e, s) | Inr s' \<Rightarrow> for_each body xs s')"

section \<open>Collaborators outside the source unit\<close>

text \<open>
  The module \<open>consts\<close> is not part of the source unit. Its keys are modelled from the
  configuration structure that the spec lists: \<open>type\<close>, \<open>aggregates\<close>,
  \<open>grouped_columns\<close>, \<open>source_column\<close>, \<open>target_column\<close>, \<open>field_alias\<close>,
  \<open>cast\<close> and \<open>limit\<close>.
\<close>

text \<open>
  Modelled from the spec: \<open>consts.CONFIG_TYPE\<close>, absent from the source unit; the key of
  the validation type of a config and the aggregation type of an aggregate spec.
\<close>

definition CONFIG_TYPE :: string where "CONFIG_TYPE = ''type''"

text \<open>
  Modelled from the spec: \<open>consts.CONFIG_AGGREGATES\<close>, absent from the source unit; the key of
  the sequence of aggregate specs.
\<close>

definition CONFIG_AGGREGATES :: string where "CONFIG_AGGREGATES = ''aggregates''"

text \<open>
  Modelled from the spec: \<open>consts.CONFIG_GROUPED_COLUMNS\<close>, absent from the source unit; the key of
  the sequence of group specs.
\<close>

definition CONFIG_GROUPED_COLUMNS :: string where "CONFIG_GROUPED_COLUMNS = ''grouped_columns''"

text \<open>
  Modelled from the spec: \<open>consts.CONFIG_SOURCE_COLUMN\<close>, absent from the source unit; the key of
  the source column of a spec.
\<close>

definition CONFIG_SOURCE_COLUMN :: string where "CONFIG_SOURCE_COLUMN = ''source_column''"

text \<open>
  Modelled from the spec: \<open>consts.CONFIG_TARGET_COLUMN\<close>, absent from the source unit; the key of
  the target column of a spec.
\<close>

definition CONFIG_TARGET_COLUMN :: string where "CONFIG_TARGET_COLUMN = ''target_column''"

text \<open>
  Modelled from the spec: \<open>consts.CONFIG_FIELD_ALIAS\<close>, absent from the source unit; the key of
  the alias of a spec.
\<close>

definition CONFIG_FIELD_ALIAS :: string where "CONFIG_FIELD_ALIAS = ''field_alias''"

text \<open>
  Modelled from the spec: \<open>consts.CONFIG_CAST\<close>, absent from the source unit; the key of
  the optional cast of a group spec.
\<close>

definition CONFIG_CAST :: string where "CONFIG_CAST = ''cast''"

text \<open>
  Modelled from the spec: \<open>consts.CONFIG_LIMIT\<close>, absent from the source unit; the key of
  the optional row limit.
\<close>

definition CONFIG_LIMIT :: string where "CONFIG_LIMIT = ''limit''"

text \<open>
  Modelled from the spec: the class \<open>AggregateField\<close> of the query builder module is not
  part of the source unit. An aggregate descriptor carries a column name and an alias,
  whatever values the config holds for them, and records which aggregation behaviour
  built it. The builder appends to a specification whatever the attribute it looked up on
  the class returns, so the entries of the aggregate sequence are descriptors or other
  objects.
\<close>

datatype aggregate_object =
    AggregateField (agg_kind: string) (agg_field_name: pyval) (agg_alias: pyval)
  | OtherObject pyval

text \<open>
  Modelled from the spec: the class \<open>GroupedField\<close> of the query builder module is not
  part of the source unit. A grouped descriptor carries a column name, an alias and an
  optional cast.
\<close>

datatype GroupedField =
  GroupedField (grp_field_name: pyval) (grp_alias: pyval) (grp_cast: pyval)

text \<open>
  Modelled from the spec: the attributes of the absent class \<open>AggregateField\<close>. The spec
  does not fix the closed set of aggregation behaviours, so their names are the parameter
  \<open>registry\<close>; each of them builds a descriptor from a column name and an alias, purely.
  A Python class has more attributes than these (\<open>__doc__\<close>, \<open>__init__\<close>, \<open>__prepare__\<close>
  and other methods); they are the parameter \<open>others\<close>. Such an attribute is not an
  aggregation behaviour: called with the keyword arguments \<open>field_name\<close> and \<open>alias\<close>
  it raises TypeError (it is not callable, or does not take these arguments), or it takes
  any arguments and returns some other object.
\<close>

datatype class_attr = RaisesTypeError | Returns "pyval \<Rightarrow> pyval \<Rightarrow> pyval"

type_synonym class_attrs = "string \<Rightarrow> class_attr option"

text \<open>
  Modelled from the spec: \<open>hasattr\<close> on the absent class \<open>AggregateField\<close>. It is true of
  every attribute of the class, aggregation behaviour or not; an attribute name that is
  not a string raises TypeError.
\<close>

definition hasattr_AggregateField :: "string list \<Rightarrow> class_attrs \<Rightarrow> pyval \<Rightarrow> error + bool" where
  "hasattr_AggregateField registry others name =
     (case name of
        PStr s \<Rightarrow> Inr (s \<in> set registry \<or> others s \<noteq> None)
      | _ \<Rightarrow> Inl TypeError)"

text \<open>
  Modelled from the spec: \<open>getattr\<close> on the absent class \<open>AggregateField\<close>. It returns the
  attribute, to be called with a column name and an alias: an aggregation behaviour
  builds the descriptor, another attribute raises TypeError or returns its object. A name
  that is no attribute raises AttributeError.
\<close>

definition getattr_AggregateField ::
  "string list \<Rightarrow> class_attrs \<Rightarrow> pyval \<Rightarrow>
     error + (pyval \<Rightarrow> pyval \<Rightarrow> error + aggregate_object)" where
  "getattr_AggregateField registry others name =
     (case name of
        PStr s \<Rightarrow>
          if s \<in> set registry
          then Inr (\<lambda>field_name alias. Inr (AggregateField s field_name alias))
          else (case others s of
                  None \<Rightarrow> Inl AttributeError
                | Some RaisesTypeError \<Rightarrow> Inr (\<lambda>field_name alias. Inl TypeError)
                | Some (Returns f) \<Rightarrow>
                    Inr (\<lambda>field_name alias. Inr (OtherObject (f field_name alias))))
      | _ \<Rightarrow> Inl TypeError)"

text \<open>
  Modelled from the spec: the class \<open>QueryBuilder\<close> is not part of the source unit. A
  query specification accumulates an ordered sequence of aggregate fields, an ordered
  sequence of grouped descriptors and a limit.
\<close>

record QueryBuilder =
  aggregate_fields :: "aggregate_object list"
  grouped_fields :: "GroupedField list"
  limit :: pyval

text \<open>
  Modelled from the spec: \<open>QueryBuilder.build_count_validator\<close>, absent from the source
  unit. A fresh specification has empty field sequences and no limit; each call makes a
  specification of its own.
\<close>

definition build_count_validator :: QueryBuilder where
  "build_count_validator = \<lparr>aggregate_fields = [], grouped_fields = [], limit = PNone\<rparr>"

text \<open>
  Modelled from the spec: \<open>QueryBuilder.add_aggregate_field\<close>, absent from the source
  unit, appends what it is given to the aggregate sequence.
\<close>

definition add_aggregate_field :: "QueryBuilder \<Rightarrow> aggregate_object \<Rightarrow> QueryBuilder" where
  "add_aggregate_field qb aggregate_field =
     qb\<lparr>aggregate_fields := aggregate_fields qb @ [aggregate_field]\<rparr>"

text \<open>
  Modelled from the spec: \<open>QueryBuilder.add_grouped_field\<close>, absent from the source unit,
  appends the descriptor to the grouped sequence.
\<close>

definition add_grouped_field :: "QueryBuilder \<Rightarrow> GroupedField \<Rightarrow> QueryBuilder" where
  "add_grouped_field qb grouped_field =
     qb\<lparr>grouped_fields := grouped_fields qb @ [grouped_field]\<rparr>"

text \<open>
  \<open>QueryBuilder.compile\<close> is not part of the source unit either. It is a parameter of the
  two query methods: called on a specification with a client, a schema name and a table
  name, it returns the compiled query or raises, and hands back the specification as it
  leaves it.
\<close>

type_synonym ('c, 'q) compiler =
  "QueryBuilder \<Rightarrow> 'c \<Rightarrow> pyval \<Rightarrow> pyval \<Rightarrow> (error + 'q) \<times> QueryBuilder"

text \<open>
  Modelled from the spec: the contract of the absent \<open>QueryBuilder.compile\<close>, that
  compiling does not mutate the specification, stated as a property of the parameter.
\<close>

definition leaves_specification :: "('c, 'q) compiler \<Rightarrow> bool" where
  "leaves_specification compile \<longleftrightarrow>
     (\<forall>qb client schema_name table_name. snd (compile qb client schema_name table_name) = qb)"

section \<open>ValidationBuilder\<close>

record 'c ValidationBuilder =
  verbose :: bool
  config :: pydict
  validation_type :: pyval
  source_client :: 'c
  target_client :: 'c
  source_builder :: QueryBuilder
  target_builder :: QueryBuilder
  aggregate_aliases :: "pyval list"
  group_aliases :: "pyval list"

definition get_query_builder :: "pyval \<Rightarrow> error + QueryBuilder" where
  "get_query_builder vtype =
     (if vtype \<in> set [PStr ''Column'', PStr ''GroupedColumn'']
      then Inr build_count_validator
      else Inl (ValueError ''Validation Builder supplied unknown type: %s'' vtype))"

definition get_config_aggregates :: "'c ValidationBuilder \<Rightarrow> pyval" where
  "get_config_aggregates self =
     (let v = dict_get (config self) CONFIG_AGGREGATES in if truthy v then v else PList [])"

definition get_config_query_groups :: "'c ValidationBuilder \<Rightarrow> pyval" where
  "get_config_query_groups self =
     (let v = dict_get (config self) CONFIG_GROUPED_COLUMNS in if truthy v then v else PList [])"

definition get_aggregate_aliases :: "'c ValidationBuilder \<Rightarrow> pyval list" where
  "get_aggregate_aliases self = aggregate_aliases self"

definition get_group_aliases :: "'c ValidationBuilder \<Rightarrow> pyval list" where
  "get_group_aliases self = group_aliases self"

text \<open>
  \<open>add_aggregate\<close>: every statement that can raise comes before the three appends, so the
  method either raises and leaves the builder as it was, or returns the updated builder.
  The source field is looked up on the class and built before the target field.
\<close>

definition add_aggregate ::
  "string list \<Rightarrow> class_attrs \<Rightarrow> pyval \<Rightarrow> 'c ValidationBuilder \<Rightarrow>
     error + 'c ValidationBuilder" where
  "add_aggregate registry others aggregate_field self =
     (case py_getitem aggregate_field CONFIG_FIELD_ALIAS of Inl e \<Rightarrow> Inl e | Inr alias \<Rightarrow>
      case py_getitem aggregate_field CONFIG_SOURCE_COLUMN of Inl e \<Rightarrow> Inl e | Inr source_field_name \<Rightarrow>
      case py_getitem aggregate_field CONFIG_TARGET_COLUMN of Inl e \<Rightarrow> Inl e | Inr target_field_name \<Rightarrow>
      case py_get aggregate_field CONFIG_TYPE of Inl e \<Rightarrow> Inl e | Inr aggregate_type \<Rightarrow>
      case hasattr_AggregateField registry others aggregate_type of Inl e \<Rightarrow> Inl e | Inr has \<Rightarrow>
      if \<not> has then Inl (Exception ''Unknown Aggregation Type: {}'' aggregate_type) else
      case getattr_AggregateField registry others aggregate_type of Inl e \<Rightarrow> Inl e | Inr source_attr \<Rightarrow>
      case source_attr source_field_name alias of Inl e \<Rightarrow> Inl e | Inr source_agg \<Rightarrow>
      case getattr_AggregateField registry others aggregate_type of Inl e \<Rightarrow> Inl e | Inr target_attr \<Rightarrow>
      case target_attr target_field_name alias of Inl e \<Rightarrow> Inl e | Inr target_agg \<Rightarrow>
      Inr (self\<lparr>source_builder := add_aggregate_field (source_builder self) source_agg,
                target_builder := add_aggregate_field (target_builder self) target_agg,
                aggregate_aliases := aggregate_aliases self @ [alias]\<rparr>))"

definition add_query_group ::
  "pyval \<Rightarrow> 'c ValidationBuilder \<Rightarrow> error + 'c ValidationBuilder" where
  "add_query_group grouped_field self =
     (case py_getitem grouped_field CONFIG_FIELD_ALIAS of Inl e \<Rightarrow> Inl e | Inr alias \<Rightarrow>
      case py_getitem grouped_field CONFIG_SOURCE_COLUMN of Inl e \<Rightarrow> Inl e | Inr source_field_name \<Rightarrow>
      case py_getitem grouped_field CONFIG_TARGET_COLUMN of Inl e \<Rightarrow> Inl e | Inr target_field_name \<Rightarrow>
      case py_get grouped_field CONFIG_CAST of Inl e \<Rightarrow> Inl e | Inr cast \<Rightarrow>
      let source_field = GroupedField source_field_name alias cast;
          target_field = GroupedField target_field_name alias cast
      in Inr (self\<lparr>source_builder := add_grouped_field (source_builder self) source_field,
                    target_builder := add_grouped_field (target_builder self) target_field,
                    group_aliases := group_aliases self @ [alias]\<rparr>))"

definition add_config_aggregates ::
  "string list \<Rightarrow> class_attrs \<Rightarrow> 'c ValidationBuilder \<Rightarrow>
     error option \<times> 'c ValidationBuilder" where
  "add_config_aggregates registry others self =
     (case py_iter (get_config_aggregates self) of
        Inl e \<Rightarrow> (Some e, self)
      | Inr agg_fields \<Rightarrow> for_each (add_aggregate registry others) agg_fields self)"

definition add_config_query_groups ::
  "'c ValidationBuilder \<Rightarrow> error option \<times> 'c ValidationBuilder" where
  "add_config_query_groups self =
     (case py_iter (get_config_query_groups self) of
        Inl e \<Rightarrow> (Some e, self)
      | Inr grp_fields \<Rightarrow> for_each add_query_group grp_fields self)"

text \<open>\<open>_get_query_limit\<close> in the source.\<close>

definition get_query_limit :: "'c ValidationBuilder \<Rightarrow> pyval" where
  "get_query_limit self = dict_get (config self) CONFIG_LIMIT"

definition add_query_limit :: "'c ValidationBuilder \<Rightarrow> 'c ValidationBuilder" where
  "add_query_limit self =
     (let lim = get_query_limit self
      in self\<lparr>source_builder := (source_builder self)\<lparr>limit := lim\<rparr>,
              target_builder := (target_builder self)\<lparr>limit := lim\<rparr>\<rparr>)"

text \<open>
  \<open>__init__\<close>: an exception raised anywhere leaves the constructor without an object, so
  the caller gets either the exception or the finished builder.
\<close>

definition ValidationBuilder_init ::
  "string list \<Rightarrow> class_attrs \<Rightarrow> pydict \<Rightarrow> 'c \<Rightarrow> 'c \<Rightarrow> bool \<Rightarrow>
     error + 'c ValidationBuilder" where
  "ValidationBuilder_init registry others cfg src_client tgt_client verb =
     (case dict_getitem cfg CONFIG_TYPE of Inl e \<Rightarrow> Inl e | Inr vtype \<Rightarrow>
      case get_query_builder vtype of Inl e \<Rightarrow> Inl e | Inr sb \<Rightarrow>
      case get_query_builder vtype of Inl e \<Rightarrow> Inl e | Inr tb \<Rightarrow>
      let self = \<lparr>verbose = verb, config = cfg, validation_type = vtype,
                  source_client = src_client, target_client = tgt_client,
                  source_builder = sb, target_builder = tb,
                  aggregate_aliases = [], group_aliases = []\<rparr>
      in case add_config_aggregates registry others self of (Some e, _) \<Rightarrow> Inl e | (None, self1) \<Rightarrow>
         case add_config_query_groups self1 of (Some e, _) \<Rightarrow> Inl e | (None, self2) \<Rightarrow>
         Inr (add_query_limit self2))"

text \<open>What \<open>print\<close> writes in verbose mode: a header line, then the compiled query.\<close>

datatype 'q printed = PrintText string | PrintQuery 'q

definition get_source_query ::
  "('c, 'q) compiler \<Rightarrow> 'c ValidationBuilder \<Rightarrow>
     (error + 'q) \<times> 'q printed list \<times> 'c ValidationBuilder" where
  "get_source_query compile self =
     (case dict_getitem (config self) ''schema_name'' of
        Inl e \<Rightarrow> (Inl e, [], self)
      | Inr schema_name \<Rightarrow>
     (case dict_getitem (config self) ''table_name'' of
        Inl e \<Rightarrow> (Inl e, [], self)
      | Inr table_name \<Rightarrow>
     (case compile (source_builder self) (source_client self) schema_name table_name of
        (Inl e, qb) \<Rightarrow> (Inl e, [], self\<lparr>source_builder := qb\<rparr>)
      | (Inr query, qb) \<Rightarrow>
          (Inr query,
           if verbose self then [PrintText ''-- ** Source Query ** --'', PrintQuery query] else [],
           self\<lparr>source_builder := qb\<rparr>))))"

text \<open>
  \<open>get_target_query\<close>: the default of each \<open>get\<close> is an argument, so the source schema
  and table are looked up (and must be present) also when the override is given.
\<close>

definition get_target_query ::
  "('c, 'q) compiler \<Rightarrow> 'c ValidationBuilder \<Rightarrow>
     (error + 'q) \<times> 'q printed list \<times> 'c ValidationBuilder" where
  "get_target_query compile self =
     (case dict_getitem (config self) ''schema_name'' of
        Inl e \<Rightarrow> (Inl e, [], self)
      | Inr src_schema \<Rightarrow>
     (let schema_name = dict_get_default (config self) ''target_schema_name'' src_schema in
      case dict_getitem (config self) ''table_name'' of
        Inl e \<Rightarrow> (Inl e, [], self)
      | Inr src_table \<Rightarrow>
     (let table_name = dict_get_default (config self) ''target_table_name'' src_table in
      case compile (target_builder self) (target_client self) schema_name table_name of
        (Inl e, qb) \<Rightarrow> (Inl e, [], self\<lparr>target_builder := qb\<rparr>)
      | (Inr query, qb) \<Rightarrow>
          (Inr query,
           if verbose self then [PrintText ''-- ** Target Query ** --'', PrintQuery query] else [],
           self\<lparr>target_builder := qb\<rparr>))))"

section \<open>Views of the config that the statements use\<close>

text \<open>
  What a declared spec holds under a key: the value of the key when the spec is a
  dictionary that has it, None otherwise.
\<close>

definition field_of :: "pyval \<Rightarrow> string \<Rightarrow> pyval" where
  "field_of v k = (case v of PDict d \<Rightarrow> dict_get d k | _ \<Rightarrow> PNone)"

text \<open>The aggregation type a spec names, when it is a string.\<close>

definition kind_of :: "pyval \<Rightarrow> string" where
  "kind_of v = (case field_of v CONFIG_TYPE of PStr s \<Rightarrow> s | _ \<Rightarrow> [])"

text \<open>The spec is a dictionary and has the key.\<close>

definition has_key :: "pyval \<Rightarrow> string \<Rightarrow> bool" where
  "has_key v k = (case v of PDict d \<Rightarrow> map_of d k \<noteq> None | _ \<Rightarrow> False)"

text \<open>
  A well-formed group spec: a dictionary with alias, source column and target column (the
  cast is optional).
\<close>

definition bindable_group :: "pyval \<Rightarrow> bool" where
  "bindable_group v \<longleftrightarrow>
     has_key v CONFIG_FIELD_ALIAS \<and> has_key v CONFIG_SOURCE_COLUMN \<and> has_key v CONFIG_TARGET_COLUMN"

text \<open>
  A well-formed aggregate spec whose aggregation type is a string that names an
  aggregation behaviour of the registry.
\<close>

definition bindable_aggregate :: "string list \<Rightarrow> pyval \<Rightarrow> bool" where
  "bindable_aggregate registry v \<longleftrightarrow>
     has_key v CONFIG_FIELD_ALIAS \<and> has_key v CONFIG_SOURCE_COLUMN \<and> has_key v CONFIG_TARGET_COLUMN \<and>
     (case field_of v CONFIG_TYPE of PStr s \<Rightarrow> s \<in> set registry | _ \<Rightarrow> False)"

text \<open>
  An attribute that returns when it is called: an aggregation behaviour, or another
  attribute that returns some object.
\<close>

definition returning_attr :: "string list \<Rightarrow> class_attrs \<Rightarrow> string \<Rightarrow> bool" where
  "returning_attr registry others s \<longleftrightarrow>
     s \<in> set registry \<or> (case others s of Some (Returns f) \<Rightarrow> True | _ \<Rightarrow> False)"

text \<open>
  An aggregate spec that \<open>add_aggregate\<close> accepts: well-formed, its aggregation type a
  string that names a returning attribute of the class.
\<close>

definition accepted_aggregate :: "string list \<Rightarrow> class_attrs \<Rightarrow> pyval \<Rightarrow> bool" where
  "accepted_aggregate registry others v \<longleftrightarrow>
     has_key v CONFIG_FIELD_ALIAS \<and> has_key v CONFIG_SOURCE_COLUMN \<and> has_key v CONFIG_TARGET_COLUMN \<and>
     (case field_of v CONFIG_TYPE of PStr s \<Rightarrow> returning_attr registry others s | _ \<Rightarrow> False)"

text \<open>The descriptors a spec stands for on each side.\<close>

definition source_aggregate :: "pyval \<Rightarrow> aggregate_object" where
  "source_aggregate v =
     AggregateField (kind_of v) (field_of v CONFIG_SOURCE_COLUMN) (field_of v CONFIG_FIELD_ALIAS)"

definition target_aggregate :: "pyval \<Rightarrow> aggregate_object" where
  "target_aggregate v =
     AggregateField (kind_of v) (field_of v CONFIG_TARGET_COLUMN) (field_of v CONFIG_FIELD_ALIAS)"

definition source_group :: "pyval \<Rightarrow> GroupedField" where
  "source_group v =
     GroupedField (field_of v CONFIG_SOURCE_COLUMN) (field_of v CONFIG_FIELD_ALIAS) (field_of v CONFIG_CAST)"

definition target_group :: "pyval \<Rightarrow> GroupedField" where
  "target_group v =
     GroupedField (field_of v CONFIG_TARGET_COLUMN) (field_of v CONFIG_FIELD_ALIAS) (field_of v CONFIG_CAST)"

text \<open>
  What the attribute that a spec names returns for a column: the descriptor when it is an
  aggregation behaviour, the other object when it is another returning attribute.
\<close>

definition entry_of :: "string list \<Rightarrow> class_attrs \<Rightarrow> pyval \<Rightarrow> pyval \<Rightarrow> aggregate_object" where
  "entry_of registry others v column =
     (if kind_of v \<in> set registry
      then AggregateField (kind_of v) column (field_of v CONFIG_FIELD_ALIAS)
      else (case others (kind_of v) of
              Some (Returns f) \<Rightarrow> OtherObject (f column (field_of v CONFIG_FIELD_ALIAS))
            | _ \<Rightarrow> OtherObject PNone))"

definition source_entry :: "string list \<Rightarrow> class_attrs \<Rightarrow> pyval \<Rightarrow> aggregate_object" where
  "source_entry registry others v = entry_of registry others v (field_of v CONFIG_SOURCE_COLUMN)"

definition target_entry :: "string list \<Rightarrow> class_attrs \<Rightarrow> pyval \<Rightarrow> aggregate_object" where
  "target_entry registry others v = entry_of registry others v (field_of v CONFIG_TARGET_COLUMN)"

text \<open>The alias a spec declares.\<close>

definition alias_of :: "pyval \<Rightarrow> pyval" where
  "alias_of v = field_of v CONFIG_FIELD_ALIAS"

text \<open>The builder once the aggregate loop, or the group loop, has bound the specs \<open>fs\<close>.\<close>

definition bind_aggregates ::
  "string list \<Rightarrow> class_attrs \<Rightarrow> pyval list \<Rightarrow> 'c ValidationBuilder \<Rightarrow> 'c ValidationBuilder" where
  "bind_aggregates registry others fs self =
     self\<lparr>source_builder := (source_builder self)
              \<lparr>aggregate_fields :=
                 aggregate_fields (source_builder self) @ map (source_entry registry others) fs\<rparr>,
          target_builder := (target_builder self)
              \<lparr>aggregate_fields :=
                 aggregate_fields (target_builder self) @ map (target_entry registry others) fs\<rparr>,
          aggregate_aliases := aggregate_aliases self @ map alias_of fs\<rparr>"

definition bind_groups :: "pyval list \<Rightarrow> 'c ValidationBuilder \<Rightarrow> 'c ValidationBuilder" where
  "bind_groups fs self =
     self\<lparr>source_builder := (source_builder self)
              \<lparr>grouped_fields := grouped_fields (source_builder self) @ map source_group fs\<rparr>,
          target_builder := (target_builder self)
              \<lparr>grouped_fields := grouped_fields (target_builder self) @ map target_group fs\<rparr>,
          group_aliases := group_aliases self @ map alias_of fs\<rparr>"

text \<open>The builder that \<open>__init__\<close> returns when every step succeeds.\<close>

definition built ::
  "string list \<Rightarrow> class_attrs \<Rightarrow> pydict \<Rightarrow> 'c \<Rightarrow> 'c \<Rightarrow> bool \<Rightarrow> pyval \<Rightarrow> pyval list \<Rightarrow>
     pyval list \<Rightarrow> 'c ValidationBuilder" where
  "built registry others cfg sc tc verb vtype aggs grps =
     \<lparr>verbose = verb, config = cfg, validation_type = vtype,
      source_client = sc, target_client = tc,
      source_builder = \<lparr>aggregate_fields = map (source_entry registry others) aggs,
                        grouped_fields = map source_group grps,
                        limit = dict_get cfg CONFIG_LIMIT\<rparr>,
      target_builder = \<lparr>aggregate_fields = map (target_entry registry others) aggs,
                        grouped_fields = map target_group grps,
                        limit = dict_get cfg CONFIG_LIMIT\<rparr>,
      aggregate_aliases = map alias_of aggs, group_aliases = map alias_of grps\<rparr>"

text \<open>The closed set of validation types.\<close>

definition supported_type :: "pyval \<Rightarrow> bool" where
  "supported_type vtype \<longleftrightarrow> vtype = PStr ''Column'' \<or> vtype = PStr ''GroupedColumn''"

text \<open>The expression \<open>config.get(k) or []\<close> of the two config getters.\<close>

definition get_or_empty :: "pydict \<Rightarrow> string \<Rightarrow> pyval" where
  "get_or_empty cfg k = (let v = dict_get cfg k in if truthy v then v else PList [])"

text \<open>
  The builder as \<open>__init__\<close> has set its fields, before it walks the config.
\<close>

definition fresh_builder :: "pydict \<Rightarrow> 'c \<Rightarrow> 'c \<Rightarrow> bool \<Rightarrow> pyval \<Rightarrow> 'c ValidationBuilder" where
  "fresh_builder cfg sc tc verb vtype =
     \<lparr>verbose = verb, config = cfg, validation_type = vtype,
      source_client = sc, target_client = tc,
      source_builder = build_count_validator, target_builder = build_count_validator,
      aggregate_aliases = [], group_aliases = []\<rparr>"

text \<open>
  A well-formed aggregate spec of the data model: a dictionary with alias, source column
  and target column, whose aggregation type is a string.
\<close>

definition aggregate_spec :: "pyval \<Rightarrow> bool" where
  "aggregate_spec v \<longleftrightarrow>
     has_key v CONFIG_FIELD_ALIAS \<and> has_key v CONFIG_SOURCE_COLUMN \<and> has_key v CONFIG_TARGET_COLUMN \<and>
     (case field_of v CONFIG_TYPE of PStr s \<Rightarrow> True | _ \<Rightarrow> False)"

text \<open>The builder after \<open>n\<close> rounds of compiling the source and then the target query.\<close>

definition compile_rounds ::
  "('c, 'q) compiler \<Rightarrow> nat \<Rightarrow> 'c ValidationBuilder \<Rightarrow> 'c ValidationBuilder" where
  "compile_rounds compile n =
     (\<lambda>self. snd (snd (get_target_query compile (snd (snd (get_source_query compile self))))))
       ^^ n"

section \<open>The example of the spec and other configs\<close>

text \<open>
  The registry of the examples (count, sum, avg, min, max and a bit-level checksum) and
  the example config of the testable properties.
\<close>

definition example_registry :: "string list" where
  "example_registry = [''count'', ''sum'', ''avg'', ''min'', ''max'', ''bit_xor'']"

text \<open>
  Attributes that every Python class has besides its own: \<open>__doc__\<close> is a string or None
  and cannot be called, \<open>__init__\<close>, \<open>__class__\<close> and \<open>mro\<close> do not take the two keyword
  arguments, and \<open>__prepare__\<close>, which a class gets from \<open>type\<close>, takes any arguments and
  returns an empty dictionary.
\<close>

definition python_class_attrs :: class_attrs where
  "python_class_attrs =
     map_of [(''__doc__'', RaisesTypeError), (''__init__'', RaisesTypeError),
             (''__class__'', RaisesTypeError), (''mro'', RaisesTypeError),
             (''__prepare__'', Returns (\<lambda>field_name alias. PDict []))]"

definition example_aggregate :: pyval where
  "example_aggregate =
     PDict [(''source_column'', PStr ''amount''), (''target_column'', PStr ''amt''),
            (''field_alias'', PStr ''sum_amount''), (''type'', PStr ''sum'')]"

definition example_group :: pyval where
  "example_group =
     PDict [(''source_column'', PStr ''region''), (''target_column'', PStr ''region_cd''),
            (''field_alias'', PStr ''region''), (''cast'', PStr ''string'')]"

definition example_config :: pydict where
  "example_config =
     [(''type'', PStr ''GroupedColumn''),
      (''aggregates'', PList [example_aggregate]),
      (''grouped_columns'', PList [example_group]),
      (''schema_name'', PStr ''s''), (''table_name'', PStr ''t''),
      (''limit'', PInt 100)]"

definition example_builder :: "unit ValidationBuilder" where
  "example_builder =
     \<lparr>verbose = False, config = example_config, validation_type = PStr ''GroupedColumn'',
      source_client = (), target_client = (),
      source_builder =
        \<lparr>aggregate_fields = [AggregateField ''sum'' (PStr ''amount'') (PStr ''sum_amount'')],
         grouped_fields = [GroupedField (PStr ''region'') (PStr ''region'') (PStr ''string'')],
         limit = PInt 100\<rparr>,
      target_builder =
        \<lparr>aggregate_fields = [AggregateField ''sum'' (PStr ''amt'') (PStr ''sum_amount'')],
         grouped_fields = [GroupedField (PStr ''region_cd'') (PStr ''region'') (PStr ''string'')],
         limit = PInt 100\<rparr>,
      aggregate_aliases = [PStr ''sum_amount''], group_aliases = [PStr ''region'']\<rparr>"

text \<open>
  A config that names an aggregation type which is no attribute of the class, between two
  specs that bind.
\<close>

definition unknown_kind_aggregate :: pyval where
  "unknown_kind_aggregate =
     PDict [(''source_column'', PStr ''price''), (''target_column'', PStr ''price''),
            (''field_alias'', PStr ''median_price''), (''type'', PStr ''median'')]"

definition unknown_kind_config :: pydict where
  "unknown_kind_config =
     [(''type'', PStr ''Column''),
      (''aggregates'', PList [example_aggregate, unknown_kind_aggregate, example_aggregate]),
      (''schema_name'', PStr ''s''), (''table_name'', PStr ''t'')]"

text \<open>
  A config whose aggregation type is \<open>__doc__\<close>: not an aggregation behaviour, but an
  attribute of the class.
\<close>

definition doc_kind_config :: pydict where
  "doc_kind_config =
     [(''type'', PStr ''Column''),
      (''aggregates'', PList
         [PDict [(''source_column'', PStr ''amount''), (''target_column'', PStr ''amt''),
                 (''field_alias'', PStr ''sum_amount''), (''type'', PStr ''__doc__'')]]),
      (''schema_name'', PStr ''s''), (''table_name'', PStr ''t'')]"

text \<open>
  A config whose aggregation type is \<open>__prepare__\<close>, and the builder that the constructor
  returns for it.
\<close>

definition prepare_kind_config :: pydict where
  "prepare_kind_config =
     [(''type'', PStr ''Column''),
      (''aggregates'', PList
         [PDict [(''source_column'', PStr ''amount''), (''target_column'', PStr ''amt''),
                 (''field_alias'', PStr ''sum_amount''), (''type'', PStr ''__prepare__'')]]),
      (''schema_name'', PStr ''s''), (''table_name'', PStr ''t'')]"

definition prepare_kind_builder :: "unit ValidationBuilder" where
  "prepare_kind_builder =
     \<lparr>verbose = False, config = prepare_kind_config, validation_type = PStr ''Column'',
      source_client = (), target_client = (),
      source_builder =
        \<lparr>aggregate_fields = [OtherObject (PDict [])], grouped_fields = [], limit = PNone\<rparr>,
      target_builder =
        \<lparr>aggregate_fields = [OtherObject (PDict [])], grouped_fields = [], limit = PNone\<rparr>,
      aggregate_aliases = [PStr ''sum_amount''], group_aliases = []\<rparr>"

text \<open>A config with a spec that has no aggregation-type key, after a spec that binds.\<close>

definition untyped_aggregate :: pydict where
  "untyped_aggregate =
     [(''source_column'', PStr ''price''), (''target_column'', PStr ''price''),
      (''field_alias'', PStr ''some_price'')]"

definition untyped_aggregate_config :: pydict where
  "untyped_aggregate_config =
     [(''type'', PStr ''Column''),
      (''aggregates'', PList [example_aggregate, PDict untyped_aggregate]),
      (''schema_name'', PStr ''s''), (''table_name'', PStr ''t'')]"

text \<open>
  A config that declares the alias \<open>total\<close> for two aggregates and the alias \<open>region\<close>
  for two groups.
\<close>

definition shared_alias_config :: pydict where
  "shared_alias_config =
     [(''type'', PStr ''GroupedColumn''),
      (''aggregates'', PList
         [PDict [(''source_column'', PStr ''amount''), (''target_column'', PStr ''amt''),
                 (''field_alias'', PStr ''total''), (''type'', PStr ''sum'')],
          PDict [(''source_column'', PStr ''qty''), (''target_column'', PStr ''quantity''),
                 (''field_alias'', PStr ''total''), (''type'', PStr ''count'')]]),
      (''grouped_columns'', PList [example_group, example_group]),
      (''schema_name'', PStr ''s''), (''table_name'', PStr ''t'')]"

text \<open>The example config with the target schema and table overridden.\<close>

definition override_config :: pydict where
  "override_config =
     (''target_schema_name'', PStr ''s2'') # (''target_table_name'', PStr ''t2'') # example_config"

text \<open>
  A compiler that returns the schema and table names it is given, and leaves the
  specification alone.
\<close>

definition recording_compile :: "(unit, pyval \<times> pyval) compiler" where
  "recording_compile qb client schema_name table_name = (Inr (schema_name, table_name), qb)"

section \<open>Properties of the steps\<close>

lemmas consts_defs =
  CONFIG_TYPE_def CONFIG_AGGREGATES_def CONFIG_GROUPED_COLUMNS_def CONFIG_SOURCE_COLUMN_def
  CONFIG_TARGET_COLUMN_def CONFIG_FIELD_ALIAS_def CONFIG_CAST_def CONFIG_LIMIT_def

lemma py_getitem_has_key: "has_key v k \<Longrightarrow> py_getitem v k = Inr (field_of v k)"
  by (auto simp: has_key_def py_getitem_def field_of_def dict_getitem_def dict_get_def
      dict_get_default_def split: pyval.splits option.splits)

lemma py_getitem_Inr: "py_getitem v k = Inr x \<Longrightarrow> has_key v k \<and> x = field_of v k"
  by (auto simp: has_key_def py_getitem_def field_of_def dict_getitem_def dict_get_def
      dict_get_default_def split: pyval.splits option.splits)

lemma py_get_has_key: "has_key v k' \<Longrightarrow> py_get v k = Inr (field_of v k)"
  by (auto simp: has_key_def py_get_def field_of_def split: pyval.splits)

text \<open>Looking up and calling the attribute that a string names.\<close>

lemma call_returning_attr:
  assumes "returning_attr registry others s" and "field_of v CONFIG_TYPE = PStr s"
  shows "hasattr_AggregateField registry others (PStr s) = Inr True"
    and "\<exists>attr. getattr_AggregateField registry others (PStr s) = Inr attr \<and>
           attr column (field_of v CONFIG_FIELD_ALIAS) = Inr (entry_of registry others v column)"
  using assms
  by (auto simp: returning_attr_def hasattr_AggregateField_def getattr_AggregateField_def
      entry_of_def kind_of_def split: option.splits class_attr.splits)

lemma call_other_attr:
  assumes "\<not> returning_attr registry others s"
  shows "hasattr_AggregateField registry others (PStr s) = Inr False \<or>
         (hasattr_AggregateField registry others (PStr s) = Inr True \<and>
          (\<exists>attr. getattr_AggregateField registry others (PStr s) = Inr attr \<and>
             (\<forall>column alias. attr column alias = Inl TypeError)))"
  using assms
  by (auto simp: returning_attr_def hasattr_AggregateField_def getattr_AggregateField_def
      split: option.splits class_attr.splits)

lemma add_aggregate_accepted:
  assumes "accepted_aggregate registry others v"
  shows "add_aggregate registry others v self =
     Inr (self\<lparr>source_builder :=
                 add_aggregate_field (source_builder self) (source_entry registry others v),
               target_builder :=
                 add_aggregate_field (target_builder self) (target_entry registry others v),
               aggregate_aliases := aggregate_aliases self @ [field_of v CONFIG_FIELD_ALIAS]\<rparr>)"
proof -
  from assms obtain s where
    k: "has_key v CONFIG_FIELD_ALIAS" "has_key v CONFIG_SOURCE_COLUMN"
       "has_key v CONFIG_TARGET_COLUMN" and
    t: "field_of v CONFIG_TYPE = PStr s" and r: "returning_attr registry others s"
    by (auto simp: accepted_aggregate_def split: pyval.splits)
  from call_returning_attr(2) [OF r t, of "field_of v CONFIG_SOURCE_COLUMN"] obtain sa where
    sa: "getattr_AggregateField registry others (PStr s) = Inr sa"
        "sa (field_of v CONFIG_SOURCE_COLUMN) (field_of v CONFIG_FIELD_ALIAS) =
           Inr (source_entry registry others v)"
    by (auto simp: source_entry_def)
  from call_returning_attr(2) [OF r t, of "field_of v CONFIG_TARGET_COLUMN"] sa(1)
  have ta: "sa (field_of v CONFIG_TARGET_COLUMN) (field_of v CONFIG_FIELD_ALIAS) =
           Inr (target_entry registry others v)"
    by (auto simp: target_entry_def)
  show ?thesis
    unfolding add_aggregate_def
    by (simp add: py_getitem_has_key k py_get_has_key [OF k(1)] t
        call_returning_attr(1) [OF r t] sa ta)
qed

lemma add_aggregate_Inr:
  assumes "add_aggregate registry others v self = Inr self'"
  shows "accepted_aggregate registry others v"
proof -
  from assms have k: "has_key v CONFIG_FIELD_ALIAS" "has_key v CONFIG_SOURCE_COLUMN"
       "has_key v CONFIG_TARGET_COLUMN"
    unfolding add_aggregate_def by (auto dest!: py_getitem_Inr split: sum.splits)
  from assms k obtain t where h: "hasattr_AggregateField registry others (field_of v CONFIG_TYPE) = Inr t"
    unfolding add_aggregate_def
    by (auto simp: py_getitem_has_key py_get_has_key [OF k(1)] split: sum.splits)
  then obtain s where t: "field_of v CONFIG_TYPE = PStr s"
    by (auto simp: hasattr_AggregateField_def split: pyval.splits)
  have "returning_attr registry others s"
  proof (rule ccontr)
    assume "\<not> returning_attr registry others s"
    from call_other_attr [OF this] assms show False
      unfolding add_aggregate_def
      by (auto simp: py_getitem_has_key k py_get_has_key [OF k(1)] t)
  qed
  with k t show ?thesis by (simp add: accepted_aggregate_def)
qed

lemma add_query_group_bindable:
  "bindable_group v \<Longrightarrow>
   add_query_group v self =
     Inr (self\<lparr>source_builder := add_grouped_field (source_builder self) (source_group v),
               target_builder := add_grouped_field (target_builder self) (target_group v),
               group_aliases := group_aliases self @ [field_of v CONFIG_FIELD_ALIAS]\<rparr>)"
  unfolding bindable_group_def add_query_group_def
  by (auto simp: py_getitem_has_key py_get_has_key [of v CONFIG_FIELD_ALIAS]
      source_group_def target_group_def)

lemma add_query_group_Inr:
  "add_query_group v self = Inr self' \<Longrightarrow> bindable_group v"
  unfolding bindable_group_def add_query_group_def
  by (auto dest!: py_getitem_Inr split: sum.splits)

text \<open>A spec that names an aggregation behaviour is accepted, and its entries are descriptors.\<close>

lemma bindable_accepted:
  "bindable_aggregate registry v \<Longrightarrow> accepted_aggregate registry others v"
  by (auto simp: bindable_aggregate_def accepted_aggregate_def returning_attr_def
      split: pyval.splits)

lemma bindable_entries:
  assumes "bindable_aggregate registry v"
  shows "source_entry registry others v = source_aggregate v"
    and "target_entry registry others v = target_aggregate v"
  using assms
  by (auto simp: bindable_aggregate_def source_entry_def target_entry_def entry_of_def
      source_aggregate_def target_aggregate_def kind_of_def split: pyval.splits)

lemma bindable_list_accepted:
  "list_all (bindable_aggregate registry) fs \<Longrightarrow> list_all (accepted_aggregate registry others) fs"
  by (auto simp: list_all_iff bindable_accepted)

lemma bindable_list_entries:
  assumes "list_all (bindable_aggregate registry) fs"
  shows "map (source_entry registry others) fs = map source_aggregate fs"
    and "map (target_entry registry others) fs = map target_aggregate fs"
  using assms by (auto simp: list_all_iff bindable_entries)

lemma for_each_append:
  "for_each body (xs @ ys) s =
     (case for_each body xs s of (None, s') \<Rightarrow> for_each body ys s' | (Some e, s') \<Rightarrow> (Some e, s'))"
  by (induction xs arbitrary: s) (auto split: sum.splits)

lemma bind_aggregates_Nil: "bind_aggregates registry others [] self = self"
  by (simp add: bind_aggregates_def)

lemma bind_aggregates_Cons:
  "bind_aggregates registry others (v # fs) self =
     bind_aggregates registry others fs
       (self\<lparr>source_builder :=
               add_aggregate_field (source_builder self) (source_entry registry others v),
             target_builder :=
               add_aggregate_field (target_builder self) (target_entry registry others v),
             aggregate_aliases := aggregate_aliases self @ [field_of v CONFIG_FIELD_ALIAS]\<rparr>)"
  by (simp add: bind_aggregates_def add_aggregate_field_def alias_of_def)

lemma bind_groups_Nil: "bind_groups [] self = self"
  by (simp add: bind_groups_def)

lemma bind_groups_Cons:
  "bind_groups (v # fs) self =
     bind_groups fs
       (self\<lparr>source_builder := add_grouped_field (source_builder self) (source_group v),
             target_builder := add_grouped_field (target_builder self) (target_group v),
             group_aliases := group_aliases self @ [field_of v CONFIG_FIELD_ALIAS]\<rparr>)"
  by (simp add: bind_groups_def add_grouped_field_def alias_of_def)

lemma aggregates_loop_ok:
  "list_all (accepted_aggregate registry others) fs \<Longrightarrow>
   for_each (add_aggregate registry others) fs self = (None, bind_aggregates registry others fs self)"
proof (induction fs arbitrary: self)
  case Nil
  show ?case by (simp add: bind_aggregates_Nil)
next
  case (Cons v fs)
  then show ?case
    by (simp add: add_aggregate_accepted bind_aggregates_Cons)
qed

lemma aggregates_loop_None:
  "for_each (add_aggregate registry others) fs self = (None, self') \<Longrightarrow>
   list_all (accepted_aggregate registry others) fs"
proof (induction fs arbitrary: self)
  case Nil
  show ?case by simp
next
  case (Cons v fs)
  then show ?case
    by (auto split: sum.splits dest: add_aggregate_Inr)
qed

lemma aggregates_loop_stops:
  assumes "list_all (accepted_aggregate registry others) pre"
    and "add_aggregate registry others v (bind_aggregates registry others pre self) = Inl e"
  shows "for_each (add_aggregate registry others) (pre @ v # post) self =
           (Some e, bind_aggregates registry others pre self)"
  using assms by (simp add: for_each_append aggregates_loop_ok)

lemma groups_loop_ok:
  "list_all bindable_group fs \<Longrightarrow> for_each add_query_group fs self = (None, bind_groups fs self)"
proof (induction fs arbitrary: self)
  case Nil
  show ?case by (simp add: bind_groups_Nil)
next
  case (Cons v fs)
  then show ?case
    by (simp add: add_query_group_bindable bind_groups_Cons)
qed

lemma groups_loop_None:
  "for_each add_query_group fs self = (None, self') \<Longrightarrow> list_all bindable_group fs"
proof (induction fs arbitrary: self)
  case Nil
  show ?case by simp
next
  case (Cons v fs)
  then show ?case
    by (auto split: sum.splits dest: add_query_group_Inr)
qed

lemma get_config_aggregates_eq:
  "get_config_aggregates self = get_or_empty (config self) CONFIG_AGGREGATES"
  by (simp add: get_config_aggregates_def get_or_empty_def)

lemma get_config_query_groups_eq:
  "get_config_query_groups self = get_or_empty (config self) CONFIG_GROUPED_COLUMNS"
  by (simp add: get_config_query_groups_def get_or_empty_def)

lemma get_or_empty_list:
  "map_of cfg k = Some (PList xs) \<Longrightarrow> py_iter (get_or_empty cfg k) = Inr xs"
  by (simp add: get_or_empty_def dict_get_def dict_get_default_def)

lemma get_or_empty_falsy:
  "\<not> truthy (dict_get cfg k) \<Longrightarrow> get_or_empty cfg k = PList []"
  by (simp add: get_or_empty_def)

lemma get_or_empty_PList:
  "dict_get cfg k = PList xs \<Longrightarrow> py_iter (get_or_empty cfg k) = Inr xs"
  by (cases xs) (simp_all add: get_or_empty_def)

lemma add_config_aggregates_ok:
  "py_iter (get_or_empty (config self) CONFIG_AGGREGATES) = Inr aggs \<Longrightarrow>
   list_all (accepted_aggregate registry others) aggs \<Longrightarrow>
   add_config_aggregates registry others self = (None, bind_aggregates registry others aggs self)"
  by (simp add: add_config_aggregates_def get_config_aggregates_eq aggregates_loop_ok)

lemma add_config_aggregates_stops:
  assumes "map_of (config self) CONFIG_AGGREGATES = Some (PList (pre @ v # post))"
    and "list_all (accepted_aggregate registry others) pre"
    and "add_aggregate registry others v (bind_aggregates registry others pre self) = Inl e"
  shows "add_config_aggregates registry others self =
           (Some e, bind_aggregates registry others pre self)"
  using assms
  by (simp add: add_config_aggregates_def get_config_aggregates_eq get_or_empty_list
      aggregates_loop_stops)

lemma add_config_query_groups_ok:
  "py_iter (get_or_empty (config self) CONFIG_GROUPED_COLUMNS) = Inr grps \<Longrightarrow>
   list_all bindable_group grps \<Longrightarrow>
   add_config_query_groups self = (None, bind_groups grps self)"
  by (simp add: add_config_query_groups_def get_config_query_groups_eq groups_loop_ok)

lemma init_supported:
  "map_of cfg CONFIG_TYPE = Some vtype \<Longrightarrow> supported_type vtype \<Longrightarrow>
   ValidationBuilder_init registry others cfg sc tc verb =
     (let self = \<lparr>verbose = verb, config = cfg, validation_type = vtype,
                  source_client = sc, target_client = tc,
                  source_builder = build_count_validator, target_builder = build_count_validator,
                  aggregate_aliases = [], group_aliases = []\<rparr>
      in case add_config_aggregates registry others self of
           (Some e, _) \<Rightarrow> Inl e
         | (None, self1) \<Rightarrow>
             (case add_config_query_groups self1 of
                (Some e, _) \<Rightarrow> Inl e
              | (None, self2) \<Rightarrow> Inr (add_query_limit self2)))"
  by (auto simp: ValidationBuilder_init_def dict_getitem_def get_query_builder_def
      supported_type_def)

lemma built_eq:
  "add_query_limit (bind_groups grps (bind_aggregates registry others aggs
     \<lparr>verbose = verb, config = cfg, validation_type = vtype,
      source_client = sc, target_client = tc,
      source_builder = build_count_validator, target_builder = build_count_validator,
      aggregate_aliases = [], group_aliases = []\<rparr>)) =
   built registry others cfg sc tc verb vtype aggs grps"
  by (simp add: bind_aggregates_def bind_groups_def add_query_limit_def get_query_limit_def
      build_count_validator_def built_def Let_def)

lemma config_bind_aggregates: "config (bind_aggregates registry others aggs self) = config self"
  by (simp add: bind_aggregates_def)

lemma init_ok:
  assumes "map_of cfg CONFIG_TYPE = Some vtype" and "supported_type vtype"
    and "py_iter (get_or_empty cfg CONFIG_AGGREGATES) = Inr aggs"
    and "list_all (accepted_aggregate registry others) aggs"
    and "py_iter (get_or_empty cfg CONFIG_GROUPED_COLUMNS) = Inr grps"
    and "list_all bindable_group grps"
  shows "ValidationBuilder_init registry others cfg sc tc verb =
           Inr (built registry others cfg sc tc verb vtype aggs grps)"
  using assms
  by (simp add: init_supported add_config_aggregates_ok add_config_query_groups_ok
      config_bind_aggregates built_eq)

lemma init_Inr:
  assumes "ValidationBuilder_init registry others cfg sc tc verb = Inr b"
  shows "\<exists>vtype aggs grps.
     map_of cfg CONFIG_TYPE = Some vtype \<and> supported_type vtype \<and>
     py_iter (get_or_empty cfg CONFIG_AGGREGATES) = Inr aggs \<and>
     list_all (accepted_aggregate registry others) aggs \<and>
     py_iter (get_or_empty cfg CONFIG_GROUPED_COLUMNS) = Inr grps \<and>
     list_all bindable_group grps \<and>
     b = built registry others cfg sc tc verb vtype aggs grps"
proof -
  from assms obtain vtype where t: "map_of cfg CONFIG_TYPE = Some vtype"
    by (auto simp: ValidationBuilder_init_def dict_getitem_def split: option.splits)
  from assms t have s: "supported_type vtype"
    by (auto simp: ValidationBuilder_init_def dict_getitem_def get_query_builder_def
        supported_type_def split: if_splits)
  let ?b0 = "\<lparr>verbose = verb, config = cfg, validation_type = vtype,
      source_client = sc, target_client = tc,
      source_builder = build_count_validator, target_builder = build_count_validator,
      aggregate_aliases = [], group_aliases = []\<rparr>"
  from assms t s obtain b1 b2 where
    a: "add_config_aggregates registry others ?b0 = (None, b1)" and
    g: "add_config_query_groups b1 = (None, b2)" and
    l: "b = add_query_limit b2"
    by (auto simp: init_supported split: prod.splits option.splits)
  from a obtain aggs where
    ia: "py_iter (get_or_empty cfg CONFIG_AGGREGATES) = Inr aggs"
    and la: "for_each (add_aggregate registry others) aggs ?b0 = (None, b1)"
    by (auto simp: add_config_aggregates_def get_config_aggregates_eq split: sum.splits)
  have ba: "list_all (accepted_aggregate registry others) aggs"
    using la by (rule aggregates_loop_None)
  have b1: "b1 = bind_aggregates registry others aggs ?b0"
    using la aggregates_loop_ok [OF ba, of ?b0] by simp
  from g obtain grps where
    ig: "py_iter (get_or_empty cfg CONFIG_GROUPED_COLUMNS) = Inr grps"
    and lg: "for_each add_query_group grps b1 = (None, b2)"
    by (auto simp: add_config_query_groups_def get_config_query_groups_eq b1 config_bind_aggregates
        split: sum.splits)
  have bg: "list_all bindable_group grps"
    using lg by (rule groups_loop_None)
  have "ValidationBuilder_init registry others cfg sc tc verb =
      Inr (built registry others cfg sc tc verb vtype aggs grps)"
    using t s ia ba ig bg by (rule init_ok)
  with assms have "b = built registry others cfg sc tc verb vtype aggs grps" by simp
  with t s ia ba ig bg show ?thesis by blast
qed

text \<open>The constructor when every aggregate spec names an aggregation behaviour.\<close>

lemma init_bindable:
  assumes "map_of cfg CONFIG_TYPE = Some vtype" and "supported_type vtype"
    and "py_iter (get_or_empty cfg CONFIG_AGGREGATES) = Inr aggs"
    and "list_all (bindable_aggregate registry) aggs"
    and "py_iter (get_or_empty cfg CONFIG_GROUPED_COLUMNS) = Inr grps"
    and "list_all bindable_group grps"
  shows "ValidationBuilder_init registry others cfg sc tc verb =
           Inr (built registry others cfg sc tc verb vtype aggs grps)"
    and "aggregate_fields (source_builder (built registry others cfg sc tc verb vtype aggs grps)) =
           map source_aggregate aggs"
    and "aggregate_fields (target_builder (built registry others cfg sc tc verb vtype aggs grps)) =
           map target_aggregate aggs"
proof -
  show "ValidationBuilder_init registry others cfg sc tc verb =
           Inr (built registry others cfg sc tc verb vtype aggs grps)"
    using assms(1,2,3) bindable_list_accepted [OF assms(4)] assms(5,6) by (rule init_ok)
  show "aggregate_fields (source_builder (built registry others cfg sc tc verb vtype aggs grps)) =
           map source_aggregate aggs"
    by (simp add: built_def bindable_list_entries [OF assms(4)])
  show "aggregate_fields (target_builder (built registry others cfg sc tc verb vtype aggs grps)) =
           map target_aggregate aggs"
    by (simp add: built_def bindable_list_entries [OF assms(4)])
qed

text \<open>The constructor when an aggregate spec raises after specs that bind.\<close>

lemma init_aggregate_raises:
  assumes "map_of cfg CONFIG_TYPE = Some vtype" and "supported_type vtype"
    and "map_of cfg CONFIG_AGGREGATES = Some (PList (pre @ v # post))"
    and "list_all (bindable_aggregate registry) pre"
    and "\<And>self :: 'c ValidationBuilder. add_aggregate registry others v self = Inl e"
  shows "ValidationBuilder_init registry others cfg (sc :: 'c) tc verb = Inl e"
  using assms(1,2,3,5) bindable_list_accepted [OF assms(4), of others]
  by (simp add: init_supported add_config_aggregates_stops)

lemmas step_defs =
  ValidationBuilder_init_def dict_getitem_def dict_get_def dict_get_default_def
  get_query_builder_def build_count_validator_def add_config_aggregates_def
  add_config_query_groups_def get_config_aggregates_def get_config_query_groups_def
  add_aggregate_def add_query_group_def py_getitem_def py_get_def hasattr_AggregateField_def
  getattr_AggregateField_def add_aggregate_field_def add_grouped_field_def
  add_query_limit_def get_query_limit_def python_class_attrs_def

lemmas example_defs =
  example_registry_def example_config_def example_aggregate_def example_group_def

lemmas view_defs =
  aggregate_spec_def bindable_aggregate_def bindable_group_def has_key_def field_of_def
  kind_of_def alias_of_def source_aggregate_def target_aggregate_def source_group_def
  target_group_def dict_get_def dict_get_default_def

text \<open>The constructor run on the example config.\<close>

lemma example_built:
  "ValidationBuilder_init example_registry python_class_attrs example_config () () False =
     Inr example_builder"
  by (simp add: step_defs consts_defs example_defs example_builder_def Let_def)

section \<open>The claims\<close>

subsection \<open>Structural parity of the two specifications\<close>










subsection \<open>An unknown aggregation type\<close>

lemma add_aggregate_unknown:
  assumes "aggregate_spec v" and "kind_of v \<notin> set registry" and "others (kind_of v) = None"
  shows "add_aggregate registry others v self =
           Inl (Exception ''Unknown Aggregation Type: {}'' (PStr (kind_of v)))"
  using assms unfolding aggregate_spec_def add_aggregate_def
  by (auto simp: py_getitem_has_key py_get_has_key [of v CONFIG_FIELD_ALIAS]
      hasattr_AggregateField_def kind_of_def split: pyval.splits)

text \<open>
  What the code does for a name that is no attribute of the class at all: after specs that
  bind, a well-formed spec with such a type makes the constructor fail with the exception
  "Unknown Aggregation Type". No builder is returned, and the aggregate loop stops right
  there: the builder it leaves behind holds the descriptors and aliases of the specs
  declared before the failing one, and none of a later spec.
\<close>

lemma unknown_attribute_aborts:
  assumes "map_of cfg CONFIG_TYPE = Some vtype"
    and "vtype = PStr ''Column'' \<or> vtype = PStr ''GroupedColumn''"
    and "map_of cfg CONFIG_AGGREGATES = Some (PList (pre @ v # post))"
    and "list_all (bindable_aggregate registry) pre"
    and "aggregate_spec v"
    and "kind_of v \<notin> set registry" and "others (kind_of v) = None"
  shows "ValidationBuilder_init registry others cfg sc tc verb =
           Inl (Exception ''Unknown Aggregation Type: {}'' (PStr (kind_of v)))"
    and "\<exists>self'. add_config_aggregates registry others (fresh_builder cfg sc tc verb vtype) =
           (Some (Exception ''Unknown Aggregation Type: {}'' (PStr (kind_of v))), self') \<and>
         aggregate_fields (source_builder self') = map source_aggregate pre \<and>
         aggregate_fields (target_builder self') = map target_aggregate pre \<and>
         aggregate_aliases self' = map alias_of pre"
proof -
  let ?fresh = "fresh_builder cfg sc tc verb vtype"
  let ?e = "Exception ''Unknown Aggregation Type: {}'' (PStr (kind_of v))"
  have raises: "add_aggregate registry others v self = Inl ?e" for self :: "'a ValidationBuilder"
    using assms(5,6,7) by (rule add_aggregate_unknown)
  have sup: "supported_type vtype" using assms(2) by (simp add: supported_type_def)
  show "ValidationBuilder_init registry others cfg sc tc verb = Inl ?e"
    using assms(1) sup assms(3,4) raises by (rule init_aggregate_raises)
  have loop: "add_config_aggregates registry others ?fresh =
      (Some ?e, bind_aggregates registry others pre ?fresh)"
    using assms(3) bindable_list_accepted [OF assms(4), of others] raises
    by (intro add_config_aggregates_stops) (simp_all add: fresh_builder_def)
  have state:
    "aggregate_fields (source_builder (bind_aggregates registry others pre ?fresh)) =
       map source_aggregate pre"
    "aggregate_fields (target_builder (bind_aggregates registry others pre ?fresh)) =
       map target_aggregate pre"
    "aggregate_aliases (bind_aggregates registry others pre ?fresh) = map alias_of pre"
    by (simp_all add: bind_aggregates_def build_count_validator_def fresh_builder_def
        bindable_list_entries [OF assms(4)])
  from loop state
  show "\<exists>self'. add_config_aggregates registry others ?fresh = (Some ?e, self') \<and>
         aggregate_fields (source_builder self') = map source_aggregate pre \<and>
         aggregate_fields (target_builder self') = map target_aggregate pre \<and>
         aggregate_aliases self' = map alias_of pre"
    by blast
qed

lemma unknown_attribute_example:
  "ValidationBuilder_init example_registry python_class_attrs unknown_kind_config () () False =
     Inl (Exception ''Unknown Aggregation Type: {}'' (PStr ''median''))"
  by (simp add: step_defs consts_defs example_defs unknown_kind_config_def
      unknown_kind_aggregate_def Let_def)

text \<open>
  C2: the code misses the claim where the aggregation type names an attribute of the class
  that is not an aggregation behaviour. \<open>__doc__\<close> is not in the registry, yet \<open>hasattr\<close>
  is true of it, so the check for an unknown aggregation type passes and the constructor
  fails with TypeError when it calls the attribute, not with "Unknown Aggregation Type".
  \<open>__prepare__\<close> is not in the registry either, and with it the constructor does not fail
  at all: it returns a builder whose two specifications hold an empty dictionary.
\<close>

theorem unknown_aggregation_unreported:
  "''__doc__'' \<notin> set example_registry \<and>
   hasattr_AggregateField example_registry python_class_attrs (PStr ''__doc__'') = Inr True \<and>
   ValidationBuilder_init example_registry python_class_attrs doc_kind_config () () False =
     Inl TypeError \<and>
   ''__prepare__'' \<notin> set example_registry \<and>
   ValidationBuilder_init example_registry python_class_attrs prepare_kind_config () () False =
     Inr prepare_kind_builder"
  by (simp add: step_defs consts_defs example_registry_def doc_kind_config_def
      prepare_kind_config_def prepare_kind_builder_def Let_def)

subsection \<open>The validation type check\<close>

text \<open>An exception that ends a loop was raised by its body.\<close>

lemma for_each_Some:
  "for_each body xs s = (Some e, s') \<Longrightarrow> \<exists>x s0. x \<in> set xs \<and> body x s0 = Inl e"
proof (induction xs arbitrary: s)
  case Nil
  then show ?case by simp
next
  case (Cons a xs)
  show ?case
  proof (cases "body a s")
    case (Inl e')
    with Cons.prems show ?thesis by auto
  next
    case (Inr s1)
    with Cons.prems have "for_each body xs s1 = (Some e, s')" by simp
    from Cons.IH [OF this] show ?thesis by auto
  qed
qed

lemma py_iter_Inl: "py_iter v = Inl e \<Longrightarrow> e = TypeError"
  by (cases v) auto

lemma py_getitem_not_ValueError: "py_getitem v k \<noteq> Inl (ValueError msg x)"
  by (auto simp: py_getitem_def dict_getitem_def split: pyval.splits option.splits)

lemma py_get_not_ValueError: "py_get v k \<noteq> Inl (ValueError msg x)"
  by (auto simp: py_get_def split: pyval.splits)

lemma hasattr_not_ValueError:
  "hasattr_AggregateField registry others name \<noteq> Inl (ValueError msg x)"
  by (auto simp: hasattr_AggregateField_def split: pyval.splits)

lemma getattr_not_ValueError:
  "getattr_AggregateField registry others name \<noteq> Inl (ValueError msg x)"
  "getattr_AggregateField registry others name = Inr attr \<Longrightarrow>
     attr column alias \<noteq> Inl (ValueError msg x)"
  by (auto simp: getattr_AggregateField_def
      split: pyval.splits option.splits class_attr.splits if_splits)

lemma add_aggregate_not_ValueError:
  "add_aggregate registry others v self \<noteq> Inl (ValueError msg x)"
  unfolding add_aggregate_def
  by (auto simp: py_getitem_not_ValueError py_get_not_ValueError hasattr_not_ValueError
      getattr_not_ValueError split: sum.splits)

lemma add_query_group_not_ValueError: "add_query_group v self \<noteq> Inl (ValueError msg x)"
  unfolding add_query_group_def
  by (auto simp: py_getitem_not_ValueError py_get_not_ValueError Let_def split: sum.splits)

lemma add_config_aggregates_not_ValueError:
  "add_config_aggregates registry others self \<noteq> (Some (ValueError msg x), self')"
  by (auto simp: add_config_aggregates_def add_aggregate_not_ValueError
      split: sum.splits dest: py_iter_Inl for_each_Some)

lemma add_config_query_groups_not_ValueError:
  "add_config_query_groups self \<noteq> (Some (ValueError msg x), self')"
  by (auto simp: add_config_query_groups_def add_query_group_not_ValueError
      split: sum.splits dest: py_iter_Inl for_each_Some)

text \<open>
  C3: a validation type other than "Column" and "GroupedColumn" makes
  \<open>get_query_builder\<close> raise ValueError, and the constructor fails with it before any
  specification exists. For the two supported types the check passes: it returns a fresh
  query builder, and whatever the constructor does afterwards, it does not fail with
  ValueError.
\<close>

theorem validation_type_check:
  assumes "map_of cfg CONFIG_TYPE = Some vtype"
  shows "(vtype \<noteq> PStr ''Column'' \<and> vtype \<noteq> PStr ''GroupedColumn'' \<longrightarrow>
            get_query_builder vtype =
              Inl (ValueError ''Validation Builder supplied unknown type: %s'' vtype) \<and>
            ValidationBuilder_init registry others cfg sc tc verb =
              Inl (ValueError ''Validation Builder supplied unknown type: %s'' vtype)) \<and>
         (vtype = PStr ''Column'' \<or> vtype = PStr ''GroupedColumn'' \<longrightarrow>
            get_query_builder vtype = Inr build_count_validator \<and>
            (\<forall>msg x. ValidationBuilder_init registry others cfg sc tc verb \<noteq> Inl (ValueError msg x)))"
proof (intro conjI impI)
  assume "vtype \<noteq> PStr ''Column'' \<and> vtype \<noteq> PStr ''GroupedColumn''"
  then show "get_query_builder vtype =
      Inl (ValueError ''Validation Builder supplied unknown type: %s'' vtype)"
    by (simp add: get_query_builder_def)
  with assms show "ValidationBuilder_init registry others cfg sc tc verb =
      Inl (ValueError ''Validation Builder supplied unknown type: %s'' vtype)"
    by (simp add: ValidationBuilder_init_def dict_getitem_def)
next
  assume s: "vtype = PStr ''Column'' \<or> vtype = PStr ''GroupedColumn''"
  then show "get_query_builder vtype = Inr build_count_validator"
    by (auto simp: get_query_builder_def)
  from s have "supported_type vtype" by (simp add: supported_type_def)
  with assms show "\<forall>msg x. ValidationBuilder_init registry others cfg sc tc verb \<noteq> Inl (ValueError msg x)"
    by (auto simp: init_supported add_config_aggregates_not_ValueError
        add_config_query_groups_not_ValueError split: prod.splits option.splits)
qed

theorem validation_type_check_witness:
  "ValidationBuilder_init example_registry python_class_attrs [(''type'', PStr ''Bogus'')] () () False =
     Inl (ValueError ''Validation Builder supplied unknown type: %s'' (PStr ''Bogus'')) \<and>
   get_query_builder (PStr ''GroupedColumn'') = Inr build_count_validator \<and>
   (\<forall>msg x. ValidationBuilder_init example_registry python_class_attrs example_config () () False \<noteq>
      Inl (ValueError msg x))"
proof -
  have 1: "map_of [(''type'', PStr ''Bogus'')] CONFIG_TYPE = Some (PStr ''Bogus'')"
    by (simp add: CONFIG_TYPE_def)
  have 2: "map_of example_config CONFIG_TYPE = Some (PStr ''GroupedColumn'')"
    by (simp add: example_config_def CONFIG_TYPE_def)
  from validation_type_check [OF 1, where registry = example_registry and others = python_class_attrs
      and sc = "()" and tc = "()" and verb = False]
    validation_type_check [OF 2, where registry = example_registry and others = python_class_attrs
      and sc = "()" and tc = "()" and verb = False]
  show ?thesis by simp
qed

subsection \<open>The alias registries\<close>

text \<open>
  C4: when construction succeeds on a config with N aggregate specs and M group specs,
  \<open>get_aggregate_aliases\<close> returns N aliases and \<open>get_group_aliases\<close> returns M, the
  alias at each position being the alias of the spec declared at that position.
\<close>

theorem alias_registries:
  assumes "ValidationBuilder_init registry others cfg sc tc verb = Inr b"
  shows "\<exists>aggs grps.
     py_iter (get_config_aggregates b) = Inr aggs \<and>
     py_iter (get_config_query_groups b) = Inr grps \<and>
     length (get_aggregate_aliases b) = length aggs \<and>
     length (get_group_aliases b) = length grps \<and>
     (\<forall>i<length aggs. py_getitem (aggs ! i) CONFIG_FIELD_ALIAS = Inr (get_aggregate_aliases b ! i)) \<and>
     (\<forall>i<length grps. py_getitem (grps ! i) CONFIG_FIELD_ALIAS = Inr (get_group_aliases b ! i))"
proof -
  from init_Inr [OF assms] obtain vtype aggs grps where
    ia: "py_iter (get_or_empty cfg CONFIG_AGGREGATES) = Inr aggs" and
    ba: "list_all (accepted_aggregate registry others) aggs" and
    ig: "py_iter (get_or_empty cfg CONFIG_GROUPED_COLUMNS) = Inr grps" and
    bg: "list_all bindable_group grps" and
    b: "b = built registry others cfg sc tc verb vtype aggs grps"
    by blast
  have c: "config b = cfg" by (simp add: b built_def)
  have 1: "py_iter (get_config_aggregates b) = Inr aggs"
    by (simp add: get_config_aggregates_eq c ia)
  have 2: "py_iter (get_config_query_groups b) = Inr grps"
    by (simp add: get_config_query_groups_eq c ig)
  have 3: "get_aggregate_aliases b = map alias_of aggs" "get_group_aliases b = map alias_of grps"
    by (simp_all add: b built_def get_aggregate_aliases_def get_group_aliases_def)
  have 4: "py_getitem (aggs ! i) CONFIG_FIELD_ALIAS = Inr (get_aggregate_aliases b ! i)"
    if "i < length aggs" for i
  proof -
    from ba that have "has_key (aggs ! i) CONFIG_FIELD_ALIAS"
      by (simp add: list_all_length accepted_aggregate_def)
    then show ?thesis using that
      by (simp add: py_getitem_has_key 3 alias_of_def)
  qed
  have 5: "py_getitem (grps ! i) CONFIG_FIELD_ALIAS = Inr (get_group_aliases b ! i)"
    if "i < length grps" for i
  proof -
    from bg that have "has_key (grps ! i) CONFIG_FIELD_ALIAS"
      by (simp add: list_all_length bindable_group_def)
    then show ?thesis using that
      by (simp add: py_getitem_has_key 3 alias_of_def)
  qed
  from 1 2 3 4 5 show ?thesis
    by (intro exI [of _ aggs] exI [of _ grps]) simp
qed

theorem alias_registries_witness:
  "ValidationBuilder_init example_registry python_class_attrs example_config () () False = Inr example_builder \<and>
   (\<exists>aggs grps.
     py_iter (get_config_aggregates example_builder) = Inr aggs \<and>
     py_iter (get_config_query_groups example_builder) = Inr grps \<and>
     length (get_aggregate_aliases example_builder) = length aggs \<and>
     length (get_group_aliases example_builder) = length grps \<and>
     (\<forall>i<length aggs.
        py_getitem (aggs ! i) CONFIG_FIELD_ALIAS = Inr (get_aggregate_aliases example_builder ! i)) \<and>
     (\<forall>i<length grps.
        py_getitem (grps ! i) CONFIG_FIELD_ALIAS = Inr (get_group_aliases example_builder ! i)))"
  using example_built alias_registries [OF example_built] by (rule conjI)

subsection \<open>The limit\<close>

text \<open>
  C5: after construction both query specifications hold the same limit, the value of the
  config's limit key: unset (None) when the key is absent, and 500 when the config says
  500.
\<close>

theorem limit_applied:
  assumes "ValidationBuilder_init registry others cfg sc tc verb = Inr b"
  shows "limit (source_builder b) = (case map_of cfg CONFIG_LIMIT of None \<Rightarrow> PNone | Some n \<Rightarrow> n) \<and>
         limit (target_builder b) = limit (source_builder b)"
proof -
  from init_Inr [OF assms] obtain vtype aggs grps
    where "b = built registry others cfg sc tc verb vtype aggs grps" by blast
  then show ?thesis
    by (simp add: built_def dict_get_def dict_get_default_def)
qed

theorem limit_applied_witness:
  "(\<exists>b. ValidationBuilder_init example_registry python_class_attrs [(''type'', PStr ''Column'')] () () False = Inr b \<and>
        limit (source_builder b) = PNone \<and> limit (target_builder b) = PNone) \<and>
   (\<exists>b. ValidationBuilder_init example_registry python_class_attrs
          [(''type'', PStr ''Column''), (''limit'', PInt 500)] () () False = Inr b \<and>
        limit (source_builder b) = PInt 500 \<and> limit (target_builder b) = PInt 500)"
proof -
  obtain b1 where b1:
    "ValidationBuilder_init example_registry python_class_attrs [(''type'', PStr ''Column'')] () () False = Inr b1"
    by (simp add: step_defs consts_defs Let_def)
  obtain b2 where b2:
    "ValidationBuilder_init example_registry python_class_attrs
       [(''type'', PStr ''Column''), (''limit'', PInt 500)] () () False = Inr b2"
    by (simp add: step_defs consts_defs Let_def)
  from limit_applied [OF b1] have "limit (source_builder b1) = PNone \<and> limit (target_builder b1) = PNone"
    by (simp add: CONFIG_LIMIT_def)
  moreover from limit_applied [OF b2]
  have "limit (source_builder b2) = PInt 500 \<and> limit (target_builder b2) = PInt 500"
    by (simp add: CONFIG_LIMIT_def)
  ultimately show ?thesis using b1 b2 by simp
qed

subsection \<open>Schema and table of the two queries\<close>

text \<open>
  C6: for a builder constructed from a config with a schema name and a table name, the
  source query is the compiler's result on the source specification, the source client
  and the source schema and table; the target query is the compiler's result on the
  target specification, the target client, and the target schema and table when the config
  overrides them, the source schema and table when it does not. This holds for every
  compiler.
\<close>

theorem query_locations:
  assumes "ValidationBuilder_init registry others cfg sc tc verb = Inr b"
    and "map_of cfg ''schema_name'' = Some schema"
    and "map_of cfg ''table_name'' = Some table"
  shows "fst (get_source_query compile b) = fst (compile (source_builder b) sc schema table) \<and>
         fst (get_target_query compile b) =
           fst (compile (target_builder b) tc
                  (case map_of cfg ''target_schema_name'' of None \<Rightarrow> schema | Some s \<Rightarrow> s)
                  (case map_of cfg ''target_table_name'' of None \<Rightarrow> table | Some t \<Rightarrow> t))"
proof -
  from init_Inr [OF assms(1)] obtain vtype aggs grps
    where "b = built registry others cfg sc tc verb vtype aggs grps" by blast
  then have b: "config b = cfg" "source_client b = sc" "target_client b = tc"
    by (simp_all add: built_def)
  show ?thesis
    using assms(2,3)
    by (simp add: get_source_query_def get_target_query_def b dict_getitem_def
        dict_get_default_def split: prod.splits sum.splits)
qed

theorem query_locations_witness:
  "ValidationBuilder_init example_registry python_class_attrs example_config () () False = Inr example_builder \<and>
   fst (get_source_query recording_compile example_builder) = Inr (PStr ''s'', PStr ''t'') \<and>
   fst (get_target_query recording_compile example_builder) = Inr (PStr ''s'', PStr ''t'') \<and>
   (\<exists>b. ValidationBuilder_init example_registry python_class_attrs override_config () () False = Inr b \<and>
      fst (get_source_query recording_compile b) = Inr (PStr ''s'', PStr ''t'') \<and>
      fst (get_target_query recording_compile b) = Inr (PStr ''s2'', PStr ''t2''))"
proof -
  have 1: "map_of example_config ''schema_name'' = Some (PStr ''s'')"
    "map_of example_config ''table_name'' = Some (PStr ''t'')"
    by (simp_all add: example_config_def)
  obtain b where 2: "ValidationBuilder_init example_registry python_class_attrs override_config () () False = Inr b"
    by (simp add: step_defs consts_defs example_defs override_config_def Let_def)
  have 3: "map_of override_config ''schema_name'' = Some (PStr ''s'')"
    "map_of override_config ''table_name'' = Some (PStr ''t'')"
    by (simp_all add: override_config_def example_config_def)
  from query_locations [OF example_built 1, of recording_compile]
  have "fst (get_source_query recording_compile example_builder) = Inr (PStr ''s'', PStr ''t'') \<and>
   fst (get_target_query recording_compile example_builder) = Inr (PStr ''s'', PStr ''t'')"
    by (simp add: recording_compile_def example_config_def)
  moreover from query_locations [OF 2 3, of recording_compile]
  have "fst (get_source_query recording_compile b) = Inr (PStr ''s'', PStr ''t'') \<and>
      fst (get_target_query recording_compile b) = Inr (PStr ''s2'', PStr ''t2'')"
    by (simp add: recording_compile_def override_config_def example_config_def)
  ultimately show ?thesis using example_built 2 by blast
qed

subsection \<open>Compiling leaves the builder alone\<close>

text \<open>The two query methods assign no field of their own.\<close>

lemma get_source_query_frame:
  assumes "leaves_specification compile"
  shows "snd (snd (get_source_query compile self)) = self"
proof -
  have same: "qb' = qb" if "compile qb c s t = (r, qb')" for qb c s t r qb'
    using assms that by (metis leaves_specification_def snd_conv)
  show ?thesis
    unfolding get_source_query_def
    by (auto split: sum.splits prod.splits dest!: same)
qed

lemma get_target_query_frame:
  assumes "leaves_specification compile"
  shows "snd (snd (get_target_query compile self)) = self"
proof -
  have same: "qb' = qb" if "compile qb c s t = (r, qb')" for qb c s t r qb'
    using assms that by (metis leaves_specification_def snd_conv)
  show ?thesis
    unfolding get_target_query_def
    by (auto simp: Let_def split: sum.splits prod.splits dest!: same)
qed

lemma compile_rounds_frame:
  assumes "leaves_specification compile"
  shows "compile_rounds compile n self = self"
  unfolding compile_rounds_def
  by (induction n) (simp_all add: get_source_query_frame [OF assms] get_target_query_frame [OF assms])

text \<open>
  C7: when the compiler leaves the specification as it finds it, \<open>get_source_query\<close>
  and \<open>get_target_query\<close> return the builder unchanged in every field; so after any
  number of rounds of compiling both queries the builder is the same, and the two methods
  return what they returned the first time.
\<close>

theorem queries_leave_builder:
  assumes "leaves_specification compile"
  shows "snd (snd (get_source_query compile b)) = b \<and>
         snd (snd (get_target_query compile b)) = b \<and>
         compile_rounds compile n b = b \<and>
         get_source_query compile (compile_rounds compile n b) = get_source_query compile b \<and>
         get_target_query compile (compile_rounds compile n b) = get_target_query compile b"
  by (simp add: get_source_query_frame [OF assms] get_target_query_frame [OF assms]
      compile_rounds_frame [OF assms])

theorem queries_leave_builder_witness:
  "ValidationBuilder_init example_registry python_class_attrs example_config () () False = Inr example_builder \<and>
   leaves_specification recording_compile \<and>
   snd (snd (get_source_query recording_compile example_builder)) = example_builder \<and>
   snd (snd (get_target_query recording_compile example_builder)) = example_builder \<and>
   compile_rounds recording_compile 3 example_builder = example_builder \<and>
   get_source_query recording_compile (compile_rounds recording_compile 3 example_builder) =
     get_source_query recording_compile example_builder \<and>
   get_target_query recording_compile (compile_rounds recording_compile 3 example_builder) =
     get_target_query recording_compile example_builder"
proof -
  have 1: "leaves_specification recording_compile"
    by (simp add: leaves_specification_def recording_compile_def)
  from example_built 1 queries_leave_builder [OF 1, of example_builder 3] show ?thesis
    by simp
qed

text \<open>
  The contract is needed: a compiler that writes to the specification it is given changes
  the builder.
\<close>

lemma mutating_compile_example:
  "snd (snd (get_source_query (\<lambda>qb c s t. (Inr (), qb\<lparr>limit := PInt 0\<rparr>)) example_builder))
     \<noteq> example_builder"
  by (simp add: get_source_query_def dict_getitem_def example_builder_def example_config_def)

subsection \<open>A config without aggregates and groups\<close>

text \<open>
  C8: with a supported validation type, when the config's aggregates and grouped columns
  are absent or empty (anything that \<open>or []\<close> turns into the empty list), construction
  succeeds, and the two specifications and the two alias registries are empty.
\<close>

theorem empty_config_builds:
  assumes "map_of cfg CONFIG_TYPE = Some vtype"
    and "vtype = PStr ''Column'' \<or> vtype = PStr ''GroupedColumn''"
    and "\<not> truthy (dict_get cfg CONFIG_AGGREGATES)"
    and "\<not> truthy (dict_get cfg CONFIG_GROUPED_COLUMNS)"
  shows "\<exists>b. ValidationBuilder_init registry others cfg sc tc verb = Inr b \<and>
     aggregate_fields (source_builder b) = [] \<and> grouped_fields (source_builder b) = [] \<and>
     aggregate_fields (target_builder b) = [] \<and> grouped_fields (target_builder b) = [] \<and>
     get_aggregate_aliases b = [] \<and> get_group_aliases b = []"
proof -
  have sup: "supported_type vtype" using assms(2) by (simp add: supported_type_def)
  have a: "py_iter (get_or_empty cfg CONFIG_AGGREGATES) = Inr []"
    using assms(3) by (simp add: get_or_empty_falsy)
  have g: "py_iter (get_or_empty cfg CONFIG_GROUPED_COLUMNS) = Inr []"
    using assms(4) by (simp add: get_or_empty_falsy)
  have "ValidationBuilder_init registry others cfg sc tc verb = Inr (built registry others cfg sc tc verb vtype [] [])"
    using assms(1) sup a _ g by (rule init_ok) simp_all
  then show ?thesis
    by (simp add: built_def get_aggregate_aliases_def get_group_aliases_def)
qed

theorem empty_config_builds_witness:
  "(\<exists>b. ValidationBuilder_init example_registry python_class_attrs [(''type'', PStr ''Column'')] () () False = Inr b \<and>
     aggregate_fields (source_builder b) = [] \<and> grouped_fields (source_builder b) = [] \<and>
     aggregate_fields (target_builder b) = [] \<and> grouped_fields (target_builder b) = [] \<and>
     get_aggregate_aliases b = [] \<and> get_group_aliases b = []) \<and>
   (\<exists>b. ValidationBuilder_init example_registry python_class_attrs
          [(''type'', PStr ''GroupedColumn''), (''aggregates'', PList []),
           (''grouped_columns'', PList [])] () () False = Inr b \<and>
     aggregate_fields (source_builder b) = [] \<and> grouped_fields (source_builder b) = [] \<and>
     aggregate_fields (target_builder b) = [] \<and> grouped_fields (target_builder b) = [] \<and>
     get_aggregate_aliases b = [] \<and> get_group_aliases b = [])"
proof (rule conjI)
  show "\<exists>b. ValidationBuilder_init example_registry python_class_attrs [(''type'', PStr ''Column'')] () () False = Inr b \<and>
     aggregate_fields (source_builder b) = [] \<and> grouped_fields (source_builder b) = [] \<and>
     aggregate_fields (target_builder b) = [] \<and> grouped_fields (target_builder b) = [] \<and>
     get_aggregate_aliases b = [] \<and> get_group_aliases b = []"
    by (rule empty_config_builds [where vtype = "PStr ''Column''"])
      (simp_all add: consts_defs dict_get_def dict_get_default_def)
  show "\<exists>b. ValidationBuilder_init example_registry python_class_attrs
          [(''type'', PStr ''GroupedColumn''), (''aggregates'', PList []),
           (''grouped_columns'', PList [])] () () False = Inr b \<and>
     aggregate_fields (source_builder b) = [] \<and> grouped_fields (source_builder b) = [] \<and>
     aggregate_fields (target_builder b) = [] \<and> grouped_fields (target_builder b) = [] \<and>
     get_aggregate_aliases b = [] \<and> get_group_aliases b = []"
    by (rule empty_config_builds [where vtype = "PStr ''GroupedColumn''"])
      (simp_all add: consts_defs dict_get_def dict_get_default_def)
qed

subsection \<open>Shared aliases\<close>

text \<open>
  C9: nothing checks that aliases are distinct. For any config with a supported
  validation type whose aggregate and group specs bind, whether or not two of them share
  an alias, construction succeeds; the alias registries and the aliases of the descriptors
  on both sides are the declared aliases, one per spec in declaration order, so a shared
  alias is there once for every spec that declares it.
\<close>

theorem shared_alias_accepted:
  assumes "map_of cfg CONFIG_TYPE = Some vtype"
    and "vtype = PStr ''Column'' \<or> vtype = PStr ''GroupedColumn''"
    and "dict_get cfg CONFIG_AGGREGATES = PList aggs"
    and "list_all (bindable_aggregate registry) aggs"
    and "dict_get cfg CONFIG_GROUPED_COLUMNS = PList grps"
    and "list_all bindable_group grps"
  shows "\<exists>b. ValidationBuilder_init registry others cfg sc tc verb = Inr b \<and>
     get_aggregate_aliases b = map alias_of aggs \<and>
     map agg_alias (aggregate_fields (source_builder b)) = map alias_of aggs \<and>
     map agg_alias (aggregate_fields (target_builder b)) = map alias_of aggs \<and>
     get_group_aliases b = map alias_of grps \<and>
     map grp_alias (grouped_fields (source_builder b)) = map alias_of grps \<and>
     map grp_alias (grouped_fields (target_builder b)) = map alias_of grps"
proof -
  have sup: "supported_type vtype" using assms(2) by (simp add: supported_type_def)
  note ok = init_bindable [OF assms(1) sup get_or_empty_PList [OF assms(3)] assms(4)
      get_or_empty_PList [OF assms(5)] assms(6), of others sc tc verb]
  have "map agg_alias (map source_aggregate aggs) = map alias_of aggs"
    "map agg_alias (map target_aggregate aggs) = map alias_of aggs"
    by (simp_all add: source_aggregate_def target_aggregate_def alias_of_def comp_def)
  with ok show ?thesis
    by (simp add: built_def get_aggregate_aliases_def get_group_aliases_def
        source_group_def target_group_def alias_of_def comp_def)
qed

theorem shared_alias_accepted_witness:
  "\<exists>b. ValidationBuilder_init example_registry python_class_attrs shared_alias_config () () False = Inr b \<and>
     get_aggregate_aliases b = [PStr ''total'', PStr ''total''] \<and>
     map agg_alias (aggregate_fields (source_builder b)) = [PStr ''total'', PStr ''total''] \<and>
     map agg_alias (aggregate_fields (target_builder b)) = [PStr ''total'', PStr ''total''] \<and>
     get_group_aliases b = [PStr ''region'', PStr ''region''] \<and>
     map grp_alias (grouped_fields (source_builder b)) = [PStr ''region'', PStr ''region''] \<and>
     map grp_alias (grouped_fields (target_builder b)) = [PStr ''region'', PStr ''region'']"
proof -
  let ?aggs = "[PDict [(''source_column'', PStr ''amount''), (''target_column'', PStr ''amt''),
                 (''field_alias'', PStr ''total''), (''type'', PStr ''sum'')],
          PDict [(''source_column'', PStr ''qty''), (''target_column'', PStr ''quantity''),
                 (''field_alias'', PStr ''total''), (''type'', PStr ''count'')]]"
  have 1: "map_of shared_alias_config CONFIG_TYPE = Some (PStr ''GroupedColumn'')"
    by (simp add: shared_alias_config_def CONFIG_TYPE_def)
  have 2: "PStr ''GroupedColumn'' = PStr ''Column'' \<or> PStr ''GroupedColumn'' = PStr ''GroupedColumn''"
    by simp
  have 3: "dict_get shared_alias_config CONFIG_AGGREGATES = PList ?aggs"
    by (simp add: shared_alias_config_def CONFIG_AGGREGATES_def dict_get_def dict_get_default_def)
  have 4: "list_all (bindable_aggregate example_registry) ?aggs"
    by (simp add: view_defs consts_defs example_registry_def)
  have 5: "dict_get shared_alias_config CONFIG_GROUPED_COLUMNS = PList [example_group, example_group]"
    by (simp add: shared_alias_config_def CONFIG_GROUPED_COLUMNS_def dict_get_def
        dict_get_default_def)
  have 6: "list_all bindable_group [example_group, example_group]"
    by (simp add: view_defs consts_defs example_group_def)
  have 7: "map alias_of ?aggs = [PStr ''total'', PStr ''total'']"
    "map alias_of [example_group, example_group] = [PStr ''region'', PStr ''region'']"
    by (simp_all add: view_defs consts_defs example_group_def)
  from shared_alias_accepted [OF 1 2 3 4 5 6, where others = python_class_attrs and sc = "()" and tc = "()"
      and verb = False] show ?thesis
    unfolding 7 .
qed

subsection \<open>A spec without the aggregation type\<close>

lemma add_aggregate_no_type:
  assumes "map_of d CONFIG_TYPE = None"
  shows "add_aggregate registry others (PDict d) self =
           Inl (if map_of d CONFIG_FIELD_ALIAS = None then KeyError CONFIG_FIELD_ALIAS
                else if map_of d CONFIG_SOURCE_COLUMN = None then KeyError CONFIG_SOURCE_COLUMN
                else if map_of d CONFIG_TARGET_COLUMN = None then KeyError CONFIG_TARGET_COLUMN
                else TypeError)"
  using assms unfolding add_aggregate_def
  by (auto simp: py_getitem_def py_get_def dict_getitem_def dict_get_def dict_get_default_def
      hasattr_AggregateField_def)

text \<open>
  C10: an aggregate spec without the aggregation-type key resolves its type to None, on
  which the registry-membership check raises TypeError. So when the specs declared before
  it bind, construction fails, and with an exception that is not "Unknown Aggregation
  Type": TypeError when the spec has its alias and column keys (KeyError when it lacks one
  of them).
\<close>

theorem missing_aggregation_type:
  assumes "map_of cfg CONFIG_TYPE = Some vtype"
    and "vtype = PStr ''Column'' \<or> vtype = PStr ''GroupedColumn''"
    and "map_of cfg CONFIG_AGGREGATES = Some (PList (pre @ PDict d # post))"
    and "list_all (bindable_aggregate registry) pre"
    and "map_of d CONFIG_TYPE = None"
  shows "py_get (PDict d) CONFIG_TYPE = Inr PNone \<and>
     hasattr_AggregateField registry others PNone = Inl TypeError \<and>
     (\<exists>e. ValidationBuilder_init registry others cfg sc tc verb = Inl e \<and>
          (\<forall>msg x. e \<noteq> Exception msg x) \<and>
          (map_of d CONFIG_FIELD_ALIAS \<noteq> None \<and> map_of d CONFIG_SOURCE_COLUMN \<noteq> None \<and>
           map_of d CONFIG_TARGET_COLUMN \<noteq> None \<longrightarrow> e = TypeError))"
proof -
  let ?e = "if map_of d CONFIG_FIELD_ALIAS = None then KeyError CONFIG_FIELD_ALIAS
            else if map_of d CONFIG_SOURCE_COLUMN = None then KeyError CONFIG_SOURCE_COLUMN
            else if map_of d CONFIG_TARGET_COLUMN = None then KeyError CONFIG_TARGET_COLUMN
            else TypeError"
  have 1: "py_get (PDict d) CONFIG_TYPE = Inr PNone"
    using assms(5) by (simp add: py_get_def dict_get_def dict_get_default_def)
  have 2: "hasattr_AggregateField registry others PNone = Inl TypeError"
    by (simp add: hasattr_AggregateField_def)
  have raises: "add_aggregate registry others (PDict d) self = Inl ?e" for self :: "'a ValidationBuilder"
    using assms(5) by (rule add_aggregate_no_type)
  have sup: "supported_type vtype" using assms(2) by (simp add: supported_type_def)
  have "ValidationBuilder_init registry others cfg sc tc verb = Inl ?e"
    using assms(1) sup assms(3) assms(4) raises by (rule init_aggregate_raises)
  moreover have "\<forall>msg x. ?e \<noteq> Exception msg x" by simp
  moreover have "map_of d CONFIG_FIELD_ALIAS \<noteq> None \<and> map_of d CONFIG_SOURCE_COLUMN \<noteq> None \<and>
           map_of d CONFIG_TARGET_COLUMN \<noteq> None \<longrightarrow> ?e = TypeError" by simp
  ultimately show ?thesis using 1 2 by blast
qed

theorem missing_aggregation_type_witness:
  "ValidationBuilder_init example_registry python_class_attrs untyped_aggregate_config () () False = Inl TypeError \<and>
   py_get (PDict untyped_aggregate) CONFIG_TYPE = Inr PNone \<and>
   hasattr_AggregateField example_registry python_class_attrs PNone = Inl TypeError"
proof -
  have 1: "map_of untyped_aggregate_config CONFIG_TYPE = Some (PStr ''Column'')"
    by (simp add: untyped_aggregate_config_def CONFIG_TYPE_def)
  have 2: "PStr ''Column'' = PStr ''Column'' \<or> PStr ''Column'' = PStr ''GroupedColumn''"
    by simp
  have 3: "map_of untyped_aggregate_config CONFIG_AGGREGATES =
      Some (PList ([example_aggregate] @ PDict untyped_aggregate # []))"
    by (simp add: untyped_aggregate_config_def CONFIG_AGGREGATES_def)
  have 4: "list_all (bindable_aggregate example_registry) [example_aggregate]"
    by (simp add: view_defs consts_defs example_defs)
  have 5: "map_of untyped_aggregate CONFIG_TYPE = None"
    by (simp add: untyped_aggregate_def CONFIG_TYPE_def)
  have 6: "map_of untyped_aggregate CONFIG_FIELD_ALIAS \<noteq> None \<and>
      map_of untyped_aggregate CONFIG_SOURCE_COLUMN \<noteq> None \<and>
      map_of untyped_aggregate CONFIG_TARGET_COLUMN \<noteq> None"
    by (simp add: untyped_aggregate_def consts_defs)
  from missing_aggregation_type [OF 1 2 3 4 5, where others = python_class_attrs and sc = "()" and tc = "()"
      and verb = False] 6 show ?thesis
    by auto
qed

end
